theory Spec2Isabelle
  imports Complex_Main "HOL-Library.AList"
begin

section \<open>Python values, exceptions and strings\<close>

text \<open>
  The program is \<^verbatim>\<open>system_info.py\<close>: four probes (CPU, memory, filesystem, I/O
  throughput) query the host and \<^verbatim>\<open>main\<close> merges their dictionaries into one
  report that it writes as JSON. Everything the probes read from the host is a field of
  the record \<open>host\<close> below; every \<^verbatim>\<open>raise\<close> of the source is a value
  \<open>Inl e\<close> of a sum type, every \<^verbatim>\<open>try/except\<close> a case distinction on it.

  Python floats are idealised as exact rationals (\<open>PFloat\<close>): the theorems speak
  about which quantities are divided and rounded, not about binary rounding error.
  Strings are byte lists, so the string functions below are the ASCII part of Python's.
\<close>

datatype exc_kind =
  ValueError | IndexError | ZeroDivisionError | AttributeError | OSError
  | ImportError | RuntimeError | MemoryError

datatype pyexc = Exc exc_kind string

text \<open>\<^verbatim>\<open>str(e)\<close>: the message of an exception.\<close>

fun str_exc :: "pyexc \<Rightarrow> string" where
  "str_exc (Exc k msg) = msg"

datatype pyval =
  PNone | PStr string | PInt int | PFloat rat | PDict "(string \<times> pyval) list"

text \<open>
  A Python \<^verbatim>\<open>dict\<close> with string keys, in insertion order. \<^verbatim>\<open>d[k] = v\<close> is
  \<open>AList.update k v d\<close>: it replaces the value of a key already there and appends a
  new key at the end.
\<close>

type_synonym pydict = "(string \<times> pyval) list"

definition keys :: "pydict \<Rightarrow> string set" where
  "keys d = fst ` set d"

text \<open>Sequencing of computations that may raise.\<close>

fun bind_exc :: "pyexc + 'a \<Rightarrow> ('a \<Rightarrow> pyexc + 'b) \<Rightarrow> pyexc + 'b" where
  "bind_exc (Inl e) f = Inl e"
| "bind_exc (Inr x) f = f x"

text \<open>The characters \<^verbatim>\<open>str.isspace\<close> accepts below 128.\<close>

definition is_space :: "char \<Rightarrow> bool" where
  "is_space c = (c \<in> set [CHR '' '', CHR 0x09, CHR 0x0A, CHR 0x0B, CHR 0x0C, CHR 0x0D,
                              CHR 0x1C, CHR 0x1D, CHR 0x1E, CHR 0x1F])"

text \<open>\<^verbatim>\<open>s.strip()\<close>\<close>

definition strip :: "string \<Rightarrow> string" where
  "strip s = rev (dropWhile is_space (rev (dropWhile is_space s)))"

text \<open>
  Splitting at every character that satisfies \<open>p\<close>, empty pieces kept:
  \<^verbatim>\<open>s.split(sep)\<close> for a one-character separator is \<open>split_on sep s\<close>, and
  \<^verbatim>\<open>s.split()\<close> drops the empty pieces of a split at whitespace.
\<close>

fun split_where :: "(char \<Rightarrow> bool) \<Rightarrow> string \<Rightarrow> string list" where
  "split_where p [] = [[]]"
| "split_where p (c # cs) =
     (if p c then [] # split_where p cs
      else (case split_where p cs of
              [] \<Rightarrow> [[c]]
            | w # ws \<Rightarrow> (c # w) # ws))"

definition split_on :: "char \<Rightarrow> string \<Rightarrow> string list" where
  "split_on sep s = split_where (\<lambda>c. c = sep) s"

definition split_ws :: "string \<Rightarrow> string list" where
  "split_ws s = filter (\<lambda>w. w \<noteq> []) (split_where is_space s)"

text \<open>\<^verbatim>\<open>xs[i]\<close> for \<open>i \<ge> 0\<close>, and \<^verbatim>\<open>xs[-1]\<close>: out of range raises IndexError.\<close>

definition index :: "'a list \<Rightarrow> nat \<Rightarrow> pyexc + 'a" where
  "index xs i =
     (if i < length xs then Inr (xs ! i) else Inl (Exc IndexError ''list index out of range''))"

definition index_last :: "'a list \<Rightarrow> pyexc + 'a" where
  "index_last xs =
     (case rev xs of
        [] \<Rightarrow> Inl (Exc IndexError ''list index out of range'')
      | x # _ \<Rightarrow> Inr x)"

text \<open>\<^verbatim>\<open>s.startswith(p)\<close>, \<^verbatim>\<open>sub in s\<close> and \<^verbatim>\<open>s.lower()\<close>.\<close>

definition startswith :: "string \<Rightarrow> string \<Rightarrow> bool" where
  "startswith s p = (take (length p) s = p)"

fun contains :: "string \<Rightarrow> string \<Rightarrow> bool" where
  "contains [] sub = (sub = [])"
| "contains (c # cs) sub = (take (length sub) (c # cs) = sub \<or> contains cs sub)"

definition lower_char :: "char \<Rightarrow> char" where
  "lower_char c =
     (let n = (of_char c :: nat) in if 65 \<le> n \<and> n \<le> 90 then char_of (n + 32) else c)"

definition lower :: "string \<Rightarrow> string" where
  "lower s = map lower_char s"

text \<open>
  \<^verbatim>\<open>int(s)\<close> on a string: surrounding whitespace is dropped, one sign is allowed, and
  the rest is decimal digits in groups separated by single underscores. Anything else
  raises ValueError. (The limit that recent Python versions put on the number of digits
  is left out.)
\<close>

definition is_digit :: "char \<Rightarrow> bool" where
  "is_digit c = (c \<in> set ''0123456789'')"

definition digit_val :: "char \<Rightarrow> nat" where
  "digit_val c = of_char c - 48"

definition digits_val :: "string \<Rightarrow> nat" where
  "digits_val ds = foldl (\<lambda>acc c. 10 * acc + digit_val c) 0 ds"

definition invalid_literal :: "string \<Rightarrow> pyexc" where
  "invalid_literal s =
     Exc ValueError (''invalid literal for int() with base 10: '' @ [CHR 0x27] @ s @ [CHR 0x27])"

definition parse_digits :: "string \<Rightarrow> string \<Rightarrow> pyexc + nat" where
  "parse_digits s ds =
     (let groups = split_on (CHR ''_'') ds in
      if list_all (\<lambda>g. g \<noteq> [] \<and> list_all is_digit g) groups
      then Inr (digits_val (concat groups))
      else Inl (invalid_literal s))"

definition py_int :: "string \<Rightarrow> pyexc + int" where
  "py_int s =
     (case strip s of
        [] \<Rightarrow> Inl (invalid_literal s)
      | c # cs \<Rightarrow>
          if c = CHR ''-'' then bind_exc (parse_digits s cs) (\<lambda>n. Inr (- int n))
          else if c = CHR ''+'' then bind_exc (parse_digits s cs) (\<lambda>n. Inr (int n))
          else bind_exc (parse_digits s (c # cs)) (\<lambda>n. Inr (int n)))"

text \<open>
  \<^verbatim>\<open>round(x, n)\<close> on the idealised float: to the nearest multiple of \<open>10\<^sup>-\<^sup>n\<close>, ties
  to the even one. \<^verbatim>\<open>a / b\<close> raises ZeroDivisionError at \<open>b = 0\<close>.
\<close>

definition round_half_even :: "rat \<Rightarrow> int" where
  "round_half_even q =
     (let f = \<lfloor>q\<rfloor>; d = q - of_int f in
      if d < 1 / 2 then f else if 1 / 2 < d then f + 1 else if even f then f else f + 1)"

definition py_round :: "rat \<Rightarrow> nat \<Rightarrow> rat" where
  "py_round x n = of_int (round_half_even (x * 10 ^ n)) / 10 ^ n"

definition py_truediv :: "rat \<Rightarrow> rat \<Rightarrow> pyexc + rat" where
  "py_truediv a b =
     (if b = 0 then Inl (Exc ZeroDivisionError ''float division by zero'') else Inr (a / b))"

section \<open>The host\<close>

text \<open>
  What \<^verbatim>\<open>subprocess.run(cmd, shell=True, capture_output=True, text=True)\<close> does:
  it raises, or it completes with a return code and the captured standard output.
\<close>

datatype proc_outcome = Raised pyexc | Completed int string

text \<open>
  \<^verbatim>\<open>os.statvfs_result\<close>. Its attributes are the ones the Python library documents;
  reading any other name raises AttributeError.
\<close>

record statvfs_result =
  f_bsize :: nat
  f_frsize :: nat
  f_blocks :: nat
  f_bfree :: nat
  f_bavail :: nat
  f_files :: nat
  f_ffree :: nat
  f_favail :: nat
  f_flag :: nat
  f_namemax :: nat
  f_fsid :: nat

definition getattr :: "statvfs_result \<Rightarrow> string \<Rightarrow> pyexc + nat" where
  "getattr st name =
     (case map_of
        [(''f_bsize'', f_bsize st), (''f_frsize'', f_frsize st), (''f_blocks'', f_blocks st),
         (''f_bfree'', f_bfree st), (''f_bavail'', f_bavail st), (''f_files'', f_files st),
         (''f_ffree'', f_ffree st), (''f_favail'', f_favail st), (''f_flag'', f_flag st),
         (''f_namemax'', f_namemax st), (''f_fsid'', f_fsid st)] name of
        Some v \<Rightarrow> Inr v
      | None \<Rightarrow>
          Inl (Exc AttributeError
            (''os.statvfs_result object has no attribute '' @ [CHR 0x27] @ name @ [CHR 0x27])))"

text \<open>\<^verbatim>\<open>psutil.virtual_memory()\<close>: the three fields the program reads.\<close>

record virtual_memory =
  total :: nat
  available :: nat
  percent :: rat

text \<open>The system calls of the I/O probe that may fail.\<close>

datatype io_step = OpenWrite | Urandom | Write | Flush | Fsync | OpenRead | Read | Remove

text \<open>
  The host as the program sees it. \<open>psutil = None\<close> means that
  \<^verbatim>\<open>import psutil\<close> raises ImportError. \<open>cpuinfo\<close> is the result of opening and
  reading \<^verbatim>\<open>/proc/cpuinfo\<close> (its lines, or the exception). \<open>home\<close> is
  \<^verbatim>\<open>Path.home()\<close>, which raises RuntimeError when no home directory can be
  determined. \<open>io_fault\<close> says which system call of the I/O probe fails and how,
  \<open>partial_write\<close> how many bytes a failing write leaves in the file, \<open>clock\<close> what
  the successive calls of \<^verbatim>\<open>time.time()\<close> in the I/O probe return, and
  \<open>dump_fault\<close> whether writing the final JSON file fails.
\<close>

record host =
  sys_name :: string
  release :: string
  python_version :: string
  processor :: string
  machine :: string
  cpu_count :: "nat option"
  shell :: "string \<Rightarrow> proc_outcome"
  cpuinfo :: "pyexc + string list"
  psutil :: "virtual_memory option"
  cwd :: string
  home :: "pyexc + string"
  path_exists :: "string \<Rightarrow> bool"
  statvfs :: "string \<Rightarrow> pyexc + statvfs_result"
  io_fault :: "io_step \<Rightarrow> pyexc option"
  partial_write :: nat
  clock :: "nat \<Rightarrow> rat"
  now_iso :: string
  now_stamp :: string
  dump_fault :: "pyexc option"

section \<open>run_command\<close>

text \<open>
  The body of the \<^verbatim>\<open>try\<close> block of \<^verbatim>\<open>run_command\<close>: \<open>Inl e\<close> when
  \<^verbatim>\<open>subprocess.run\<close> raises, \<open>Inr (Some s)\<close> when the \<^verbatim>\<open>return\<close> inside the
  block is reached, \<open>Inr None\<close> when the block falls through.
\<close>

definition run_command_try :: "(string \<Rightarrow> proc_outcome) \<Rightarrow> string \<Rightarrow> pyexc + string option" where
  "run_command_try sh cmd =
     (case sh cmd of
        Raised e \<Rightarrow> Inl e
      | Completed returncode stdout \<Rightarrow>
          if returncode = 0 then Inr (Some (strip stdout)) else Inr None)"

text \<open>
  \<^verbatim>\<open>run_command\<close>: \<^verbatim>\<open>except Exception: pass\<close> and the final
  \<^verbatim>\<open>return None\<close>. The result type still has room for an exception, so that
  "never raises" is a theorem and not a typing.
\<close>

definition run_command :: "(string \<Rightarrow> proc_outcome) \<Rightarrow> string \<Rightarrow> pyexc + string option" where
  "run_command sh cmd =
     (case run_command_try sh cmd of
        Inl e \<Rightarrow> Inr None
      | Inr (Some out) \<Rightarrow> Inr (Some out)
      | Inr None \<Rightarrow> Inr None)"

text \<open>\<^verbatim>\<open>if result:\<close> on what \<^verbatim>\<open>run_command\<close> returned: neither None nor empty.\<close>

fun truthy :: "string option \<Rightarrow> bool" where
  "truthy None = False"
| "truthy (Some s) = (s \<noteq> [])"

fun text_of :: "string option \<Rightarrow> string" where
  "text_of None = []"
| "text_of (Some s) = s"

text \<open>A command that cannot be run, or exits with a non-zero code.\<close>

fun cmd_fails :: "proc_outcome \<Rightarrow> bool" where
  "cmd_fails (Raised e) = True"
| "cmd_fails (Completed returncode stdout) = (returncode \<noteq> 0)"

section \<open>The CPU probe\<close>

text \<open>
  The loop over the lines of \<^verbatim>\<open>/proc/cpuinfo\<close>: the first line that starts with
  \<^verbatim>\<open>model name\<close> decides (\<^verbatim>\<open>break\<close>); \<^verbatim>\<open>line.split(":")[1]\<close> raises
  IndexError on a line without a colon.
\<close>

fun find_model :: "string list \<Rightarrow> pyexc + string option" where
  "find_model [] = Inr None"
| "find_model (line # rest) =
     (if startswith line ''model name''
      then bind_exc (index (split_on (CHR '':'') line) 1) (\<lambda>v. Inr (Some (strip v)))
      else find_model rest)"

definition base_cpu_info :: "host \<Rightarrow> pydict" where
  "base_cpu_info h =
     [(''processor'', PStr (if processor h = [] then ''Unknown'' else processor h)),
      (''architecture'', PStr (machine h)),
      (''python_cpu_count'', (case cpu_count h of None \<Rightarrow> PNone | Some n \<Rightarrow> PInt (int n)))]"

definition get_cpu_info :: "host \<Rightarrow> pyexc + pydict" where
  "get_cpu_info h =
     (let info = base_cpu_info h in
      if sys_name h = ''Darwin'' then
        bind_exc (run_command (shell h) ''sysctl -n machdep.cpu.brand_string'') (\<lambda>sysctl_info.
        let info1 = (if truthy sysctl_info
                     then AList.update ''model'' (PStr (text_of sysctl_info)) info else info) in
        bind_exc (run_command (shell h) ''sysctl -n hw.perflevel0.physicalcpu'') (\<lambda>perf_cores.
        bind_exc (run_command (shell h) ''sysctl -n hw.perflevel1.physicalcpu'') (\<lambda>eff_cores.
        if truthy perf_cores \<and> truthy eff_cores then
          bind_exc (py_int (text_of perf_cores)) (\<lambda>p.
          let info2 = AList.update ''performance_cores'' (PInt p) info1 in
          bind_exc (py_int (text_of eff_cores)) (\<lambda>e.
          Inr (AList.update ''efficiency_cores'' (PInt e) info2)))
        else Inr info1)))
      else if sys_name h = ''Linux'' then
        (case bind_exc (cpuinfo h) find_model of
           Inl e \<Rightarrow> Inr info
         | Inr None \<Rightarrow> Inr info
         | Inr (Some m) \<Rightarrow> Inr (AList.update ''model'' (PStr m) info))
      else Inr info)"

section \<open>The memory probe\<close>

text \<open>
  Only ImportError is caught: with psutil the three fields come from
  \<^verbatim>\<open>psutil.virtual_memory()\<close>; without it the fallback parses the output of a
  command, and \<^verbatim>\<open>int(...)\<close> and \<^verbatim>\<open>split()[1]\<close> stand outside any \<^verbatim>\<open>try\<close>.
\<close>

definition get_memory_info :: "host \<Rightarrow> pyexc + pydict" where
  "get_memory_info h =
     (case psutil h of
        Some mem \<Rightarrow>
          Inr [(''total_gb'', PFloat (py_round (of_nat (total mem) / 1024 ^ 3) 2)),
               (''available_gb'', PFloat (py_round (of_nat (available mem) / 1024 ^ 3) 2)),
               (''used_percent'', PFloat (percent mem))]
      | None \<Rightarrow>
          if sys_name h = ''Darwin'' then
            bind_exc (run_command (shell h) ''sysctl -n hw.memsize'') (\<lambda>mem_size.
            if truthy mem_size then
              bind_exc (py_int (text_of mem_size)) (\<lambda>n.
              Inr [(''total_gb'', PFloat (py_round (of_int n / 1024 ^ 3) 2))])
            else Inr [])
          else if sys_name h = ''Linux'' then
            bind_exc (run_command (shell h) ''grep MemTotal /proc/meminfo'') (\<lambda>mem_info.
            if truthy mem_info then
              bind_exc (index (split_ws (text_of mem_info)) 1) (\<lambda>w.
              bind_exc (py_int w) (\<lambda>kb.
              Inr [(''total_gb'', PFloat (py_round (of_int kb / 1024 ^ 2) 2))]))
            else Inr [])
          else Inr [])"

section \<open>The filesystem probe\<close>

text \<open>A shell word in single quotes, as the f-strings of the source write it.\<close>

definition squote :: "string \<Rightarrow> string" where
  "squote s = CHR 0x27 # s @ [CHR 0x27]"

text \<open>
  The part of the Darwin branch that reads a line of \<^verbatim>\<open>mount\<close> such as
  \<^verbatim>\<open>/dev/disk3s1s1 on / (apfs, local, journaled)\<close>, entered when the line has
  an opening parenthesis.
\<close>

definition classify_mount :: "string \<Rightarrow> pydict \<Rightarrow> pyexc + pydict" where
  "classify_mount mount_info fs_info =
     bind_exc (index (split_on (CHR ''('') mount_info) 1) (\<lambda>rest.
     bind_exc (index (split_on (CHR '')'') rest) 0) (\<lambda>fs_details.
     let fs_parts = map strip (split_on (CHR '','') fs_details);
         low = lower fs_details in
     bind_exc
       (if ''apfs'' \<in> set fs_parts then Inr ''APFS (SSD)''
        else if ''hfs'' \<in> set fs_parts then Inr ''HFS+''
        else if contains low ''nfs'' then Inr ''NFS (Network)''
        else if contains low ''smbfs'' then Inr ''SMB (Network)''
        else if fs_parts \<noteq> [] then index fs_parts 0 else Inr ''Unknown'')
       (\<lambda>ty.
        let fs1 = AList.update ''type'' (PStr ty) fs_info in
        Inr (if ''local'' \<in> set fs_parts then AList.update ''mount_type'' (PStr ''local'') fs1
             else if contains low ''nfs'' \<or> contains low ''smbfs''
             then AList.update ''mount_type'' (PStr ''network'') fs1
             else fs1))))"

definition darwin_fs_type :: "host \<Rightarrow> string \<Rightarrow> pydict \<Rightarrow> pyexc + pydict" where
  "darwin_fs_type h path fs_info =
     bind_exc (run_command (shell h) (''df '' @ squote path @ '' | tail -1'')) (\<lambda>mount_result.
     if truthy mount_result then
       bind_exc (index_last (split_ws (text_of mount_result))) (\<lambda>mount_point.
       if mount_point \<noteq> [] then
         bind_exc (run_command (shell h) (''mount | grep '' @ squote (''^'' @ mount_point @ '' '')))
           (\<lambda>first_try.
         bind_exc (if \<not> truthy first_try
                   then run_command (shell h) (''mount | grep '' @ squote ('' '' @ mount_point @ '' ''))
                   else Inr first_try) (\<lambda>mount_info.
         if truthy mount_info then
           (if CHR ''('' \<in> set (text_of mount_info)
            then classify_mount (text_of mount_info) fs_info else Inr fs_info)
         else Inr fs_info))
       else Inr fs_info)
     else Inr fs_info)"

definition fs_map :: "(string \<times> string) list" where
  "fs_map =
     [(''ext4'', ''ext4 (likely SSD/HDD)''), (''xfs'', ''XFS''), (''btrfs'', ''Btrfs''),
      (''nfs'', ''NFS (Network)''), (''tmpfs'', ''tmpfs (RAM)''), (''zfs'', ''ZFS'')]"

definition linux_fs_type :: "host \<Rightarrow> string \<Rightarrow> pydict \<Rightarrow> pyexc + pydict" where
  "linux_fs_type h path fs_info =
     bind_exc (run_command (shell h) (''stat -f -c %T '' @ squote path)) (\<lambda>result.
     if truthy result then
       Inr (AList.update ''type''
              (PStr (case map_of fs_map (text_of result) of
                       Some v \<Rightarrow> v
                     | None \<Rightarrow> text_of result)) fs_info)
     else Inr fs_info)"

text \<open>
  The \<^verbatim>\<open>try\<close> block that reads the disk usage (lines 162 to 167), with the dictionary
  as it stands when the block ends or raises. The source reads the attribute
  \<^verbatim>\<open>f_available\<close> of the statvfs result.
\<close>

definition disk_usage_try :: "host \<Rightarrow> string \<Rightarrow> pydict \<Rightarrow> pyexc option \<times> pydict" where
  "disk_usage_try h path fs_info =
     (case statvfs h path of Inl e \<Rightarrow> (Some e, fs_info) | Inr st \<Rightarrow>
      (case getattr st ''f_blocks'' of Inl e \<Rightarrow> (Some e, fs_info) | Inr blocks \<Rightarrow>
      (case getattr st ''f_frsize'' of Inl e \<Rightarrow> (Some e, fs_info) | Inr frsize \<Rightarrow>
       let total_gb = (of_nat (blocks * frsize) :: rat) / 1024 ^ 3 in
      (case getattr st ''f_available'' of Inl e \<Rightarrow> (Some e, fs_info) | Inr avail \<Rightarrow>
      (case getattr st ''f_frsize'' of Inl e \<Rightarrow> (Some e, fs_info) | Inr frsize2 \<Rightarrow>
       let free_gb = (of_nat (avail * frsize2) :: rat) / 1024 ^ 3;
           fs1 = AList.update ''total_gb'' (PFloat (py_round total_gb 2)) fs_info;
           fs2 = AList.update ''free_gb'' (PFloat (py_round free_gb 2)) fs1 in
      (case py_truediv (total_gb - free_gb) total_gb of Inl e \<Rightarrow> (Some e, fs2) | Inr q \<Rightarrow>
         (None, AList.update ''used_percent'' (PFloat (py_round (q * 100) 1)) fs2)))))))"

text \<open>\<^verbatim>\<open>except Exception: pass\<close>: whatever the block did to the dictionary stays.\<close>

definition disk_usage :: "host \<Rightarrow> string \<Rightarrow> pydict \<Rightarrow> pydict" where
  "disk_usage h path fs_info = snd (disk_usage_try h path fs_info)"

text \<open>One round of the loop for a path that exists.\<close>

definition fs_entry :: "host \<Rightarrow> string \<Rightarrow> pyexc + pydict" where
  "fs_entry h path =
     (let fs_info = [(''path'', PStr path)] in
      bind_exc
        (if sys_name h = ''Darwin'' then darwin_fs_type h path fs_info
         else if sys_name h = ''Linux'' then linux_fs_type h path fs_info
         else Inr fs_info)
        (\<lambda>fs1. Inr (disk_usage h path fs1)))"

fun fs_loop :: "host \<Rightarrow> (string \<times> string) list \<Rightarrow> pydict \<Rightarrow> pyexc + pydict" where
  "fs_loop h [] info = Inr info"
| "fs_loop h ((name, path) # rest) info =
     (if \<not> path_exists h path then fs_loop h rest info
      else bind_exc (fs_entry h path) (\<lambda>fs_info.
           fs_loop h rest (AList.update name (PDict fs_info) info)))"

definition get_filesystem_info :: "host \<Rightarrow> pyexc + pydict" where
  "get_filesystem_info h =
     bind_exc (home h) (\<lambda>home_path.
     fs_loop h [(''current_dir'', cwd h), (''home'', home_path), (''tmp'', ''/tmp'')] [])"

section \<open>The I/O probe\<close>

text \<open>
  The files of the host, by absolute path. A file of random bytes is known by its size;
  the report is kept as the value \<^verbatim>\<open>json.dump\<close> was given. A relative path names a
  file of the current working directory.
\<close>

datatype file_content = Bytes nat | Json pyval

type_synonym files = "string \<rightharpoonup> file_content"

definition resolve :: "host \<Rightarrow> string \<Rightarrow> string" where
  "resolve h p = (if startswith p ''/'' then p else cwd h @ ''/'' @ p)"

definition test_file :: string where
  "test_file = ''io_test_tmp.bin''"

definition test_size :: nat where
  "test_size = 100 * 1024 * 1024"

text \<open>
  The write test (lines 189 to 192): \<^verbatim>\<open>open(test_file, "wb")\<close> creates or empties
  the file, \<^verbatim>\<open>os.urandom(test_size)\<close> is evaluated, then written, flushed and
  synced. The result is the exception raised, if any, and the files as they are then.
\<close>

definition write_test :: "host \<Rightarrow> files \<Rightarrow> pyexc option \<times> files" where
  "write_test h fs =
     (case io_fault h OpenWrite of Some e \<Rightarrow> (Some e, fs) | None \<Rightarrow>
      let p = resolve h test_file; fs0 = fs(p \<mapsto> Bytes 0) in
      (case io_fault h Urandom of Some e \<Rightarrow> (Some e, fs0) | None \<Rightarrow>
      (case io_fault h Write of
         Some e \<Rightarrow> (Some e, fs0(p \<mapsto> Bytes (min (partial_write h) test_size)))
       | None \<Rightarrow>
      let fs1 = fs0(p \<mapsto> Bytes test_size) in
      (case io_fault h Flush of Some e \<Rightarrow> (Some e, fs1) | None \<Rightarrow>
      (case io_fault h Fsync of Some e \<Rightarrow> (Some e, fs1) | None \<Rightarrow> (None, fs1))))))"

text \<open>The read test (lines 198 and 199): it changes no file.\<close>

definition read_test :: "host \<Rightarrow> files \<Rightarrow> pyexc option" where
  "read_test h fs =
     (case io_fault h OpenRead of Some e \<Rightarrow> Some e | None \<Rightarrow>
      (case fs (resolve h test_file) of
         None \<Rightarrow> Some (Exc OSError ''No such file or directory'')
       | Some content \<Rightarrow> io_fault h Read))"

text \<open>\<^verbatim>\<open>os.remove(test_file)\<close>\<close>

definition os_remove :: "host \<Rightarrow> string \<Rightarrow> files \<Rightarrow> pyexc option \<times> files" where
  "os_remove h name fs =
     (case io_fault h Remove of Some e \<Rightarrow> (Some e, fs) | None \<Rightarrow>
      (case fs (resolve h name) of
         None \<Rightarrow> (Some (Exc OSError ''No such file or directory''), fs)
       | Some content \<Rightarrow> (None, fs((resolve h name) := None))))"

text \<open>
  The \<^verbatim>\<open>try\<close> block of \<^verbatim>\<open>get_io_performance\<close> (lines 185 to 204): the exception
  raised, if any, with the dictionary and the files as they are when the block ends or
  raises. \<^verbatim>\<open>os.remove\<close> is the last statement of the block.
\<close>

definition io_try :: "host \<Rightarrow> files \<Rightarrow> pyexc option \<times> pydict \<times> files" where
  "io_try h fs =
     (let info = []; start = clock h 0 in
      (case write_test h fs of (Some e, fs1) \<Rightarrow> (Some e, info, fs1) | (None, fs1) \<Rightarrow>
      let write_time = clock h 1 - start in
      (case py_truediv (of_nat test_size / (1024 * 1024)) write_time of
         Inl e \<Rightarrow> (Some e, info, fs1)
       | Inr write_speed \<Rightarrow>
      let info1 = AList.update ''write_speed_mb_s'' (PFloat (py_round write_speed 2)) info;
          start2 = clock h 2 in
      (case read_test h fs1 of Some e \<Rightarrow> (Some e, info1, fs1) | None \<Rightarrow>
      let read_time = clock h 3 - start2 in
      (case py_truediv (of_nat test_size / (1024 * 1024)) read_time of
         Inl e \<Rightarrow> (Some e, info1, fs1)
       | Inr read_speed \<Rightarrow>
      let info2 = AList.update ''read_speed_mb_s'' (PFloat (py_round read_speed 2)) info1 in
      (case os_remove h test_file fs1 of
         (Some e, fs2) \<Rightarrow> (Some e, info2, fs2)
       | (None, fs2) \<Rightarrow> (None, info2, fs2)))))))"

text \<open>\<^verbatim>\<open>except Exception as e: info["error"] = str(e)\<close>, then \<^verbatim>\<open>return info\<close>.\<close>

definition get_io_performance :: "host \<Rightarrow> files \<Rightarrow> pydict \<times> files" where
  "get_io_performance h fs =
     (case io_try h fs of
        (Some e, info, fs') \<Rightarrow> (AList.update ''error'' (PStr (str_exc e)) info, fs')
      | (None, info, fs') \<Rightarrow> (info, fs'))"

section \<open>main\<close>

text \<open>
  What \<^verbatim>\<open>main\<close> prints is not modelled. An exception of a probe leaves \<^verbatim>\<open>main\<close>
  where it is raised; the report is written last.
\<close>

definition output_file :: "host \<Rightarrow> string" where
  "output_file h = ''system_info_'' @ now_stamp h @ ''.json''"

definition all_info :: "host \<Rightarrow> pydict \<Rightarrow> pydict \<Rightarrow> pydict \<Rightarrow> pydict \<Rightarrow> pydict" where
  "all_info h cpu_info mem_info fs_info io_info =
     [(''timestamp'', PStr (now_iso h)),
      (''platform'', PDict [(''system'', PStr (sys_name h)),
                            (''release'', PStr (release h)),
                            (''python'', PStr (python_version h))]),
      (''cpu'', PDict cpu_info),
      (''memory'', PDict mem_info),
      (''filesystem'', PDict fs_info),
      (''io_performance'', PDict io_info)]"

definition main :: "host \<Rightarrow> files \<Rightarrow> pyexc option \<times> files" where
  "main h fs =
     (case get_cpu_info h of Inl e \<Rightarrow> (Some e, fs) | Inr cpu_info \<Rightarrow>
      (case get_memory_info h of Inl e \<Rightarrow> (Some e, fs) | Inr mem_info \<Rightarrow>
      (case get_filesystem_info h of Inl e \<Rightarrow> (Some e, fs) | Inr fs_info \<Rightarrow>
      (case get_io_performance h fs of (io_info, fs1) \<Rightarrow>
      (case dump_fault h of Some e \<Rightarrow> (Some e, fs1) | None \<Rightarrow>
         (None, fs1(resolve h (output_file h) \<mapsto>
                  Json (PDict (all_info h cpu_info mem_info fs_info io_info)))))))))"

text \<open>The report that a run of \<^verbatim>\<open>main\<close> left in the output file, if it wrote one.\<close>

definition written_report :: "host \<Rightarrow> files \<Rightarrow> pydict option" where
  "written_report h fs =
     (case main h fs of
        (Some e, fs') \<Rightarrow> None
      | (None, fs') \<Rightarrow>
          (case fs' (resolve h (output_file h)) of
             Some (Json (PDict report)) \<Rightarrow> Some report
           | _ \<Rightarrow> None))"

text \<open>One section of that report, by its key.\<close>

definition report_section :: "host \<Rightarrow> files \<Rightarrow> string \<Rightarrow> pyval option" where
  "report_section h fs name =
     (case written_report h fs of
        None \<Rightarrow> None
      | Some report \<Rightarrow> map_of report name)"

section \<open>Shapes of values\<close>

text \<open>
  A scalar is anything but a dictionary. \<open>flat\<close>: a dictionary of scalars.
  \<open>wf_json\<close>: what \<^verbatim>\<open>json.dump\<close> turns into a JSON text. The kinds of values it
  accepts (None, str, int, finite float, dict with string keys) are all that \<open>pyval\<close>
  has, so what is left to check is that no object has a key twice.
\<close>

fun is_scalar :: "pyval \<Rightarrow> bool" where
  "is_scalar (PDict d) = False"
| "is_scalar v = True"

definition flat :: "pydict \<Rightarrow> bool" where
  "flat d = list_all (\<lambda>kv. is_scalar (snd kv)) d"

fun is_flat_dict :: "pyval \<Rightarrow> bool" where
  "is_flat_dict (PDict d) = flat d"
| "is_flat_dict v = False"

text \<open>A value that is a dictionary with the key \<open>k\<close>.\<close>

fun has_key :: "string \<Rightarrow> pyval \<Rightarrow> bool" where
  "has_key k (PDict d) = (k \<in> keys d)"
| "has_key k v = False"

fun wf_json :: "pyval \<Rightarrow> bool" where
  "wf_json (PDict d) = (distinct (map fst d) \<and> list_all (\<lambda>kv. wf_json (snd kv)) d)"
| "wf_json v = True"

text \<open>What the filesystem probe stores for one path.\<close>

definition entry_ok :: "pyval \<Rightarrow> bool" where
  "entry_ok v = (has_key ''path'' v \<and> is_flat_dict v \<and> wf_json v)"

section \<open>Example hosts\<close>

text \<open>
  A Linux machine without psutil, where every command and system call works; writing
  the test file takes two seconds and reading it back half a second.
\<close>

definition linux_shell :: "string \<Rightarrow> proc_outcome" where
  "linux_shell cmd =
     (if cmd = ''grep MemTotal /proc/meminfo''
      then Completed 0 (''MemTotal:       16777216 kB'' @ [CHR 0x0A])
      else if cmd = ''stat -f -c %T '' @ squote ''/work''
      then Completed 0 (''ext4'' @ [CHR 0x0A])
      else if cmd = ''stat -f -c %T '' @ squote ''/home/ada''
      then Completed 0 (''nfs'' @ [CHR 0x0A])
      else if cmd = ''stat -f -c %T '' @ squote ''/tmp''
      then Completed 0 (''ramfs'' @ [CHR 0x0A])
      else Completed 127 [])"

definition linux_statvfs :: statvfs_result where
  "linux_statvfs =
     \<lparr>f_bsize = 4096, f_frsize = 4096, f_blocks = 26214400, f_bfree = 13107200,
      f_bavail = 13107200, f_files = 6553600, f_ffree = 6000000, f_favail = 6000000,
      f_flag = 4096, f_namemax = 255, f_fsid = 2049\<rparr>"

definition linux_host :: host where
  "linux_host =
     \<lparr>sys_name = ''Linux'', release = ''6.1.0'', python_version = ''3.11.4'',
      processor = [], machine = ''x86_64'', cpu_count = Some 8,
      shell = linux_shell,
      cpuinfo = Inr [''processor'' @ [CHR 0x09] @ '': 0'' @ [CHR 0x0A],
                     ''model name'' @ [CHR 0x09] @ '': Xeon E5'' @ [CHR 0x0A]],
      psutil = None,
      cwd = ''/work'', home = Inr ''/home/ada'',
      path_exists = (\<lambda>p. p = ''/work'' \<or> p = ''/home/ada'' \<or> p = ''/tmp''),
      statvfs = (\<lambda>p. Inr linux_statvfs),
      io_fault = (\<lambda>s. None), partial_write = 0,
      clock = (\<lambda>n. if n = 0 then 10 else if n = 1 then 12 else if n = 2 then 12 else 25 / 2),
      now_iso = ''2024-05-01T12:00:00.000001'', now_stamp = ''20240501_120000'',
      dump_fault = None\<rparr>"

text \<open>
  The same machine with a full disk: the write of the test file raises after fifty
  megabytes.
\<close>

definition disk_full_host :: host where
  "disk_full_host =
     linux_host\<lparr>io_fault := (\<lambda>s. if s = Write
                                  then Some (Exc OSError ''[Errno 28] No space left on device'')
                                  else None),
                 partial_write := 52428800\<rparr>"

text \<open>The same machine where reading the test file back raises an I/O error.\<close>

definition read_error_host :: host where
  "read_error_host =
     linux_host\<lparr>io_fault := (\<lambda>s. if s = Read
                                  then Some (Exc OSError ''[Errno 5] Input/output error'')
                                  else None)\<rparr>"

text \<open>The same machine where \<^verbatim>\<open>grep MemTotal /proc/meminfo\<close> prints a line with one word.\<close>

definition short_meminfo_host :: host where
  "short_meminfo_host =
     linux_host\<lparr>shell := (\<lambda>cmd. if cmd = ''grep MemTotal /proc/meminfo''
                                then Completed 0 (''MemTotal:'' @ [CHR 0x0A])
                                else linux_shell cmd)\<rparr>"

text \<open>The same machine where no command can be run and the files of /proc cannot be read.\<close>

definition locked_down_host :: host where
  "locked_down_host =
     linux_host\<lparr>shell := (\<lambda>cmd. Raised (Exc OSError ''[Errno 13] Permission denied'')),
                 cpuinfo := Inl (Exc OSError ''[Errno 13] Permission denied''),
                 statvfs := (\<lambda>p. Inl (Exc OSError ''[Errno 13] Permission denied''))\<rparr>"

text \<open>An Apple Silicon machine with psutil.\<close>

definition darwin_shell :: "string \<Rightarrow> proc_outcome" where
  "darwin_shell cmd =
     (if cmd = ''sysctl -n machdep.cpu.brand_string'' then Completed 0 (''Apple M1'' @ [CHR 0x0A])
      else if cmd = ''sysctl -n hw.perflevel0.physicalcpu'' then Completed 0 (''4'' @ [CHR 0x0A])
      else if cmd = ''sysctl -n hw.perflevel1.physicalcpu'' then Completed 0 (''4'' @ [CHR 0x0A])
      else if cmd = ''sysctl -n hw.memsize'' then Completed 0 (''17179869184'' @ [CHR 0x0A])
      else if cmd = ''df '' @ squote ''/Users/ada'' @ '' | tail -1''
      then Completed 0 (''/dev/disk3s5 971350180 412316860 36% /System/Volumes/Data'' @ [CHR 0x0A])
      else if cmd = ''mount | grep '' @ squote (''^/System/Volumes/Data '') then Completed 1 []
      else if cmd = ''mount | grep '' @ squote ('' /System/Volumes/Data '')
      then Completed 0 (''/dev/disk3s5 on /System/Volumes/Data (apfs, local, journaled)'' @ [CHR 0x0A])
      else Completed 1 [])"

definition darwin_host :: host where
  "darwin_host =
     \<lparr>sys_name = ''Darwin'', release = ''23.4.0'', python_version = ''3.12.2'',
      processor = ''arm'', machine = ''arm64'', cpu_count = Some 8,
      shell = darwin_shell,
      cpuinfo = Inl (Exc OSError ''[Errno 2] No such file or directory''),
      psutil = Some \<lparr>total = 17179869184, available = 8589934592, percent = 50\<rparr>,
      cwd = ''/Users/ada'', home = Inr ''/Users/ada'',
      path_exists = (\<lambda>p. p = ''/Users/ada'' \<or> p = ''/tmp''),
      statvfs = (\<lambda>p. Inr linux_statvfs),
      io_fault = (\<lambda>s. None), partial_write = 0,
      clock = (\<lambda>n. if n = 0 then 10 else if n = 1 then 11 else if n = 2 then 11 else 45 / 4),
      now_iso = ''2024-05-01T12:00:00.000001'', now_stamp = ''20240501_120000'',
      dump_fault = None\<rparr>"

text \<open>The same machine where \<^verbatim>\<open>sysctl -n hw.perflevel0.physicalcpu\<close> prints a word.\<close>

definition odd_sysctl_host :: host where
  "odd_sysctl_host =
     darwin_host\<lparr>shell := (\<lambda>cmd. if cmd = ''sysctl -n hw.perflevel0.physicalcpu''
                                 then Completed 0 (''unknown'' @ [CHR 0x0A])
                                 else darwin_shell cmd)\<rparr>"

text \<open>
  An Intel Mac without psutil, on which the \<^verbatim>\<open>sysctl\<close> and \<^verbatim>\<open>df\<close> commands
  of the probes exit with code 1.
\<close>

definition intel_mac_host :: host where
  "intel_mac_host = darwin_host\<lparr>shell := (\<lambda>cmd. Completed 1 []), psutil := None\<rparr>"

text \<open>
  A Windows machine without psutil: the program takes neither the Darwin nor the Linux
  branch, and \<^verbatim>\<open>/tmp\<close> does not exist.
\<close>

definition windows_host :: host where
  "windows_host =
     \<lparr>sys_name = ''Windows'', release = ''10'', python_version = ''3.11.4'',
      processor = ''Intel64 Family 6'', machine = ''AMD64'', cpu_count = Some 4,
      shell = (\<lambda>cmd. Completed 1 []),
      cpuinfo = Inl (Exc OSError ''[Errno 2] No such file or directory''),
      psutil = None,
      cwd = ''C:/work'', home = Inr ''C:/Users/ada'',
      path_exists = (\<lambda>p. p = ''C:/work'' \<or> p = ''C:/Users/ada''),
      statvfs = (\<lambda>p. Inl (Exc AttributeError ''module os has no attribute statvfs'')),
      io_fault = (\<lambda>s. None), partial_write = 0,
      clock = (\<lambda>n. if n = 0 then 10 else if n = 1 then 12 else if n = 2 then 12 else 25 / 2),
      now_iso = ''2024-05-01T12:00:00.000001'', now_stamp = ''20240501_120000'',
      dump_fault = None\<rparr>"

section \<open>Basic facts\<close>

lemma bind_exc_Inr_iff: "bind_exc m f = Inr y \<longleftrightarrow> (\<exists>x. m = Inr x \<and> f x = Inr y)"
  by (cases m) auto

lemma keys_update: "keys (AList.update k v d) = insert k (keys d)"
  by (simp add: keys_def dom_update)

lemma keys_Cons: "keys ((k, v) # d) = insert k (keys d)"
  by (simp add: keys_def)

lemma keys_Nil: "keys [] = {}"
  by (simp add: keys_def)

lemma run_command_eq:
  "run_command sh cmd =
     Inr (case sh cmd of
            Raised e \<Rightarrow> None
          | Completed returncode stdout \<Rightarrow> if returncode = 0 then Some (strip stdout) else None)"
  by (simp add: run_command_def run_command_try_def split: proc_outcome.splits)



section \<open>run_command never raises\<close>

text \<open>
  Claim C8. \<^verbatim>\<open>run_command\<close> never raises an exception; it returns the stripped
  standard output of the command exactly when the command runs and exits with return
  code 0, and returns None in every other case, that is when the command exits with
  another code or running it raises.
\<close>

theorem run_command_never_raises:
  "(\<exists>r. run_command sh cmd = Inr r) \<and>
   (run_command sh cmd = Inr (Some s) \<longleftrightarrow>
      (\<exists>stdout. sh cmd = Completed 0 stdout \<and> s = strip stdout)) \<and>
   (run_command sh cmd = Inr None \<longleftrightarrow> cmd_fails (sh cmd))"
  by (cases "sh cmd") (auto simp: run_command_eq)

theorem run_command_never_raises_witness:
  "run_command linux_shell ''grep MemTotal /proc/meminfo''
     = Inr (Some ''MemTotal:       16777216 kB'') \<and>
   run_command linux_shell ''sysctl -n hw.memsize'' = Inr None"
proof
  have out: "linux_shell ''grep MemTotal /proc/meminfo''
               = Completed 0 (''MemTotal:       16777216 kB'' @ [CHR 0x0A])"
    by (simp add: linux_shell_def)
  have "strip (''MemTotal:       16777216 kB'' @ [CHR 0x0A]) = ''MemTotal:       16777216 kB''"
    by (simp add: strip_def is_space_def)
  with out show "run_command linux_shell ''grep MemTotal /proc/meminfo''
                   = Inr (Some ''MemTotal:       16777216 kB'')"
    using run_command_never_raises
            [of linux_shell "''grep MemTotal /proc/meminfo''" "''MemTotal:       16777216 kB''"]
    by simp
next
  have "cmd_fails (linux_shell ''sysctl -n hw.memsize'')"
    by (simp add: linux_shell_def squote_def)
  then show "run_command linux_shell ''sysctl -n hw.memsize'' = Inr None"
    using run_command_never_raises [of linux_shell "''sysctl -n hw.memsize''"] by simp
qed

section \<open>The keys of the CPU probe\<close>

text \<open>
  Whatever the host, a returned CPU dictionary is the base dictionary, possibly with a
  model, possibly with both core counts.
\<close>

lemma get_cpu_info_shape:
  assumes "get_cpu_info h = Inr info"
  shows "\<exists>i1. (i1 = base_cpu_info h \<or> (\<exists>m. i1 = AList.update ''model'' (PStr m) (base_cpu_info h))) \<and>
          (info = i1 \<or> (\<exists>p e. info = AList.update ''efficiency_cores'' (PInt e)
                                   (AList.update ''performance_cores'' (PInt p) i1)))"
  using assms
  by (auto simp: get_cpu_info_def Let_def run_command_eq bind_exc_Inr_iff
           split: if_splits sum.splits option.splits)

lemma get_cpu_info_darwin_host:
  "get_cpu_info darwin_host =
     Inr [(''processor'', PStr ''arm''), (''architecture'', PStr ''arm64''),
          (''python_cpu_count'', PInt 8), (''model'', PStr ''Apple M1''),
          (''performance_cores'', PInt 4), (''efficiency_cores'', PInt 4)]"
  by (simp add: get_cpu_info_def darwin_host_def darwin_shell_def run_command_eq
        base_cpu_info_def py_int_def strip_def is_space_def parse_digits_def split_on_def
        is_digit_def digits_val_def digit_val_def)

text \<open>
  Claim C9. The mapping returned by \<^verbatim>\<open>get_cpu_info\<close> contains the keys
  \<^verbatim>\<open>processor\<close>, \<^verbatim>\<open>architecture\<close> and \<^verbatim>\<open>python_cpu_count\<close> whatever the
  host's operating system, and the keys \<^verbatim>\<open>performance_cores\<close> and
  \<^verbatim>\<open>efficiency_cores\<close> are both present or both absent.
\<close>

theorem get_cpu_info_keys:
  "get_cpu_info h = Inr info \<Longrightarrow>
     {''processor'', ''architecture'', ''python_cpu_count''} \<subseteq> keys info \<and>
     (''performance_cores'' \<in> keys info \<longleftrightarrow> ''efficiency_cores'' \<in> keys info)"
  by (drule get_cpu_info_shape) (auto simp: keys_update keys_Cons keys_Nil base_cpu_info_def)

theorem get_cpu_info_keys_witness:
  "get_cpu_info darwin_host =
     Inr [(''processor'', PStr ''arm''), (''architecture'', PStr ''arm64''),
          (''python_cpu_count'', PInt 8), (''model'', PStr ''Apple M1''),
          (''performance_cores'', PInt 4), (''efficiency_cores'', PInt 4)] \<and>
   {''processor'', ''architecture'', ''python_cpu_count''}
     \<subseteq> keys [(''processor'', PStr ''arm''), (''architecture'', PStr ''arm64''),
          (''python_cpu_count'', PInt 8), (''model'', PStr ''Apple M1''),
          (''performance_cores'', PInt 4), (''efficiency_cores'', PInt 4)] \<and>
   (''performance_cores'' \<in> keys [(''processor'', PStr ''arm''), (''architecture'', PStr ''arm64''),
          (''python_cpu_count'', PInt 8), (''model'', PStr ''Apple M1''),
          (''performance_cores'', PInt 4), (''efficiency_cores'', PInt 4)]) =
   (''efficiency_cores'' \<in> keys [(''processor'', PStr ''arm''), (''architecture'', PStr ''arm64''),
          (''python_cpu_count'', PInt 8), (''model'', PStr ''Apple M1''),
          (''performance_cores'', PInt 4), (''efficiency_cores'', PInt 4)])"
  using get_cpu_info_keys [OF get_cpu_info_darwin_host] get_cpu_info_darwin_host
  by blast

section \<open>Facts about the I/O probe\<close>



lemma write_test_creates:
  "io_fault h OpenWrite = None \<Longrightarrow> snd (write_test h fs) (resolve h test_file) \<noteq> None"
  by (auto simp: write_test_def Let_def split: option.splits)

lemma io_try_files:
  "snd (snd (io_try h fs)) =
     (if fst (io_try h fs) = None then (snd (write_test h fs))(resolve h test_file := None)
      else snd (write_test h fs))"
  by (auto simp: io_try_def Let_def os_remove_def split: option.splits prod.splits sum.splits)

lemma get_io_performance_files: "snd (get_io_performance h fs) = snd (snd (io_try h fs))"
  by (auto simp: get_io_performance_def split: option.splits prod.splits)

lemma io_probe_removes_on_success:
  "fst (io_try h fs) = None \<Longrightarrow> snd (get_io_performance h fs) (resolve h test_file) = None"
  by (simp add: get_io_performance_files io_try_files)

lemma io_probe_keeps_on_error:
  "io_fault h OpenWrite = None \<Longrightarrow> fst (io_try h fs) = Some e \<Longrightarrow>
     snd (get_io_performance h fs) (resolve h test_file) \<noteq> None"
  by (simp add: get_io_performance_files io_try_files write_test_creates)


lemma io_try_info:
  "fst (snd (io_try h fs)) = [] \<or>
   fst (snd (io_try h fs)) =
     [(''write_speed_mb_s'', PFloat (py_round (100 / (clock h 1 - clock h 0)) 2))] \<or>
   fst (snd (io_try h fs)) =
     [(''write_speed_mb_s'', PFloat (py_round (100 / (clock h 1 - clock h 0)) 2)),
      (''read_speed_mb_s'', PFloat (py_round (100 / (clock h 3 - clock h 2)) 2))]"
  by (auto simp: io_try_def Let_def py_truediv_def test_size_def
           split: option.splits prod.splits sum.splits if_splits)


lemma get_io_performance_info:
  "fst (get_io_performance h fs) =
     (case fst (io_try h fs) of
        None \<Rightarrow> fst (snd (io_try h fs))
      | Some e \<Rightarrow> AList.update ''error'' (PStr (str_exc e)) (fst (snd (io_try h fs))))"
  by (auto simp: get_io_performance_def split: prod.splits option.splits)


lemma io_try_linux_host:
  "io_try linux_host Map.empty =
     (None, [(''write_speed_mb_s'', PFloat 50), (''read_speed_mb_s'', PFloat 200)], Map.empty)"
  by (simp add: io_try_def write_test_def read_test_def os_remove_def linux_host_def Let_def
        py_truediv_def test_size_def resolve_def test_file_def startswith_def py_round_def
        round_half_even_def)


section \<open>The test file of the I/O probe\<close>



text \<open>
  Claim C1 says that the temporary file is deleted before \<^verbatim>\<open>get_io_performance\<close>
  returns, also when the write or the read phase raises. The code removes the file as
  the last statement of the \<^verbatim>\<open>try\<close> block and has no \<^verbatim>\<open>finally\<close>: on the host
  with the full disk the probe returns with the error recorded and fifty megabytes of
  the file left behind, and on the host where reading fails the whole file is left.
\<close>

theorem io_probe_leaves_file_after_error:
  "fst (get_io_performance disk_full_host Map.empty) =
     [(''error'', PStr ''[Errno 28] No space left on device'')] \<and>
   snd (get_io_performance disk_full_host Map.empty) (resolve disk_full_host test_file) =
     Some (Bytes 52428800) \<and>
   fst (get_io_performance read_error_host Map.empty) =
     [(''write_speed_mb_s'', PFloat 50), (''error'', PStr ''[Errno 5] Input/output error'')] \<and>
   snd (get_io_performance read_error_host Map.empty) (resolve read_error_host test_file) =
     Some (Bytes 104857600)"
  by (simp add: get_io_performance_def io_try_def write_test_def read_test_def os_remove_def
        linux_host_def disk_full_host_def read_error_host_def Let_def py_truediv_def
        test_size_def resolve_def test_file_def startswith_def py_round_def round_half_even_def)

section \<open>Facts about the filesystem probe\<close>

text \<open>
  \<^verbatim>\<open>os.statvfs_result\<close> has no attribute \<^verbatim>\<open>f_available\<close> (the free blocks
  for unprivileged users are \<^verbatim>\<open>f_bavail\<close>), so line 164 raises AttributeError on
  every host before the block has stored anything, and the disk usage block leaves the
  dictionary as it was.
\<close>

lemma getattr_f_available:
  "getattr st ''f_available'' =
     Inl (Exc AttributeError
       (''os.statvfs_result object has no attribute '' @ [CHR 0x27] @ ''f_available'' @ [CHR 0x27]))"
  by (simp add: getattr_def)

lemma disk_usage_unchanged: "disk_usage h path fs_info = fs_info"
  by (simp add: disk_usage_def disk_usage_try_def Let_def getattr_f_available split: sum.splits)

lemma classify_mount_shape:
  "classify_mount mount_info d0 = Inr d \<Longrightarrow>
     (\<exists>t. d = AList.update ''type'' (PStr t) d0) \<or>
     (\<exists>t m. d = AList.update ''mount_type'' (PStr m) (AList.update ''type'' (PStr t) d0))"
  by (auto simp: classify_mount_def Let_def bind_exc_Inr_iff split: if_splits)

lemma darwin_fs_type_shape:
  "darwin_fs_type h path d0 = Inr d \<Longrightarrow>
     d = d0 \<or> (\<exists>t. d = AList.update ''type'' (PStr t) d0) \<or>
     (\<exists>t m. d = AList.update ''mount_type'' (PStr m) (AList.update ''type'' (PStr t) d0))"
  by (auto simp: darwin_fs_type_def bind_exc_Inr_iff split: if_splits dest: classify_mount_shape)

lemma linux_fs_type_shape:
  "linux_fs_type h path d0 = Inr d \<Longrightarrow>
     d = d0 \<or> (\<exists>t. d = AList.update ''type'' (PStr t) d0)"
  by (auto simp: linux_fs_type_def bind_exc_Inr_iff split: if_splits)

lemma fs_entry_shape:
  "fs_entry h path = Inr d \<Longrightarrow>
     d = [(''path'', PStr path)] \<or>
     (\<exists>t. d = [(''path'', PStr path), (''type'', PStr t)]) \<or>
     (\<exists>t m. d = [(''path'', PStr path), (''type'', PStr t), (''mount_type'', PStr m)])"
  by (auto simp: fs_entry_def Let_def bind_exc_Inr_iff disk_usage_unchanged
           split: if_splits dest!: darwin_fs_type_shape linux_fs_type_shape)

lemma fs_entry_ok: "fs_entry h path = Inr d \<Longrightarrow> entry_ok (PDict d)"
  by (auto simp: entry_ok_def keys_Cons flat_def dest!: fs_entry_shape)

lemma list_all_update:
  "list_all P d \<Longrightarrow> P (k, v) \<Longrightarrow> list_all P (AList.update k v d)"
  by (induction d) auto

lemma fs_loop_keys:
  "fs_loop h ps acc = Inr info \<Longrightarrow>
     keys info = keys acc \<union> {name. \<exists>path. (name, path) \<in> set ps \<and> path_exists h path}"
proof (induction h ps acc rule: fs_loop.induct)
  case (1 h info)
  then show ?case by simp
next
  case (2 h name path rest acc)
  show ?case
  proof (cases "path_exists h path")
    case False
    with 2 show ?thesis by auto
  next
    case True
    with "2.prems" obtain d where d: "fs_entry h path = Inr d"
      and rest: "fs_loop h rest (AList.update name (PDict d) acc) = Inr info"
      by (auto simp: bind_exc_Inr_iff)
    from "2.IH"(2) [OF _ rest] True
    show ?thesis by (auto simp: keys_update)
  qed
qed

lemma fs_loop_values:
  "fs_loop h ps acc = Inr info \<Longrightarrow> list_all (\<lambda>kv. entry_ok (snd kv)) acc \<Longrightarrow>
     list_all (\<lambda>kv. entry_ok (snd kv)) info"
proof (induction h ps acc rule: fs_loop.induct)
  case (1 h info)
  then show ?case by simp
next
  case (2 h name path rest acc)
  show ?case
  proof (cases "path_exists h path")
    case False
    with 2 show ?thesis by auto
  next
    case True
    with "2.prems" obtain d where d: "fs_entry h path = Inr d"
      and rest: "fs_loop h rest (AList.update name (PDict d) acc) = Inr info"
      by (auto simp: bind_exc_Inr_iff)
    have "list_all (\<lambda>kv. entry_ok (snd kv)) (AList.update name (PDict d) acc)"
      using "2.prems"(2) fs_entry_ok [OF d] by (simp add: list_all_update)
    with "2.IH"(2) [OF _ rest] True show ?thesis by simp
  qed
qed

lemma fs_loop_distinct:
  "fs_loop h ps acc = Inr info \<Longrightarrow> distinct (map fst acc) \<Longrightarrow> distinct (map fst info)"
proof (induction h ps acc rule: fs_loop.induct)
  case (1 h info)
  then show ?case by simp
next
  case (2 h name path rest acc)
  show ?case
  proof (cases "path_exists h path")
    case False
    with 2 show ?thesis by auto
  next
    case True
    with "2.prems" obtain d where d: "fs_entry h path = Inr d"
      and rest: "fs_loop h rest (AList.update name (PDict d) acc) = Inr info"
      by (auto simp: bind_exc_Inr_iff)
    have "distinct (map fst (AList.update name (PDict d) acc))"
      using "2.prems"(2) by (simp add: distinct_update)
    with "2.IH"(2) [OF _ rest] True show ?thesis by simp
  qed
qed

section \<open>The keys of the filesystem probe\<close>

text \<open>
  Claim C10. The keys of the mapping returned by \<^verbatim>\<open>get_filesystem_info\<close> are a
  subset of \<^verbatim>\<open>current_dir\<close>, \<^verbatim>\<open>home\<close> and \<^verbatim>\<open>tmp\<close>; a key is present only
  when the corresponding path exists on the host (and then it is present); and every
  value in the mapping contains a \<^verbatim>\<open>path\<close> entry.
\<close>

theorem get_filesystem_info_keys:
  "get_filesystem_info h = Inr info \<Longrightarrow>
     keys info \<subseteq> {''current_dir'', ''home'', ''tmp''} \<and>
     (''current_dir'' \<in> keys info \<longleftrightarrow> path_exists h (cwd h)) \<and>
     (''home'' \<in> keys info \<longleftrightarrow> (\<exists>p. home h = Inr p \<and> path_exists h p)) \<and>
     (''tmp'' \<in> keys info \<longleftrightarrow> path_exists h ''/tmp'') \<and>
     list_all (\<lambda>kv. has_key ''path'' (snd kv)) info"
proof -
  assume a: "get_filesystem_info h = Inr info"
  then obtain hp where hp: "home h = Inr hp"
    and loop: "fs_loop h [(''current_dir'', cwd h), (''home'', hp), (''tmp'', ''/tmp'')] [] = Inr info"
    by (auto simp: get_filesystem_info_def bind_exc_Inr_iff)
  have k: "keys info = {name. \<exists>path. (name, path) \<in> set [(''current_dir'', cwd h), (''home'', hp), (''tmp'', ''/tmp'')] \<and> path_exists h path}"
    using fs_loop_keys [OF loop] by (simp add: keys_Nil)
  have v: "list_all (\<lambda>kv. entry_ok (snd kv)) info"
    using fs_loop_values [OF loop] by simp
  have v': "list_all (\<lambda>kv. has_key ''path'' (snd kv)) info"
    using v by (simp add: list_all_iff entry_ok_def)
  show ?thesis using k v' hp by auto
qed

lemma get_filesystem_info_windows_host:
  "get_filesystem_info windows_host =
     Inr [(''current_dir'', PDict [(''path'', PStr ''C:/work'')]),
          (''home'', PDict [(''path'', PStr ''C:/Users/ada'')])]"
  by (simp add: get_filesystem_info_def windows_host_def fs_entry_def disk_usage_unchanged)

theorem get_filesystem_info_keys_witness:
  "get_filesystem_info windows_host =
     Inr [(''current_dir'', PDict [(''path'', PStr ''C:/work'')]),
          (''home'', PDict [(''path'', PStr ''C:/Users/ada'')])] \<and>
   keys [(''current_dir'', PDict [(''path'', PStr ''C:/work'')]),
         (''home'', PDict [(''path'', PStr ''C:/Users/ada'')])]
     \<subseteq> {''current_dir'', ''home'', ''tmp''} \<and>
   ''tmp'' \<notin> keys [(''current_dir'', PDict [(''path'', PStr ''C:/work'')]),
                   (''home'', PDict [(''path'', PStr ''C:/Users/ada'')])] \<and>
   \<not> path_exists windows_host ''/tmp'' \<and>
   list_all (\<lambda>kv. has_key ''path'' (snd kv))
     [(''current_dir'', PDict [(''path'', PStr ''C:/work'')]),
      (''home'', PDict [(''path'', PStr ''C:/Users/ada'')])]"
proof -
  have "\<not> path_exists windows_host ''/tmp''"
    by (simp add: windows_host_def)
  with get_filesystem_info_keys [OF get_filesystem_info_windows_host]
    get_filesystem_info_windows_host
  show ?thesis by blast
qed

section \<open>Facts about the report\<close>

text \<open>
  Every probe that returns gives a dictionary without a repeated key; the CPU, memory
  and I/O dictionaries hold scalars only, and every value of the filesystem dictionary
  is itself a dictionary of scalars with a path.
\<close>

lemma flat_update: "flat d \<Longrightarrow> is_scalar v \<Longrightarrow> flat (AList.update k v d)"
  by (simp add: flat_def list_all_update)

lemma base_cpu_info_flat: "flat (base_cpu_info h) \<and> distinct (map fst (base_cpu_info h))"
  by (simp add: base_cpu_info_def flat_def split: option.splits)

lemma get_cpu_info_flat:
  assumes "get_cpu_info h = Inr info"
  shows "flat info \<and> distinct (map fst info)"
  using get_cpu_info_shape [OF assms] base_cpu_info_flat [of h]
  by (auto simp: flat_update distinct_update)

lemma get_memory_info_shape:
  "get_memory_info h = Inr info \<Longrightarrow>
     info = [] \<or> (\<exists>t. info = [(''total_gb'', PFloat t)]) \<or>
     (\<exists>t a p. info = [(''total_gb'', PFloat t), (''available_gb'', PFloat a),
                       (''used_percent'', PFloat p)])"
  by (auto simp: get_memory_info_def bind_exc_Inr_iff split: option.splits if_splits)

lemma get_memory_info_flat:
  "get_memory_info h = Inr info \<Longrightarrow> flat info \<and> distinct (map fst info)"
  by (drule get_memory_info_shape) (auto simp: flat_def)

lemma get_io_performance_flat:
  "flat (fst (get_io_performance h fs)) \<and> distinct (map fst (fst (get_io_performance h fs)))"
  using io_try_info [of h fs]
  by (auto simp: get_io_performance_info flat_def distinct_update list_all_update split: option.splits)

lemma get_filesystem_info_entries:
  assumes "get_filesystem_info h = Inr info"
  shows "list_all (\<lambda>kv. entry_ok (snd kv)) info \<and> distinct (map fst info)"
proof -
  from assms obtain hp where
    loop: "fs_loop h [(''current_dir'', cwd h), (''home'', hp), (''tmp'', ''/tmp'')] [] = Inr info"
    by (auto simp: get_filesystem_info_def bind_exc_Inr_iff)
  from fs_loop_values [OF loop] fs_loop_distinct [OF loop] show ?thesis by simp
qed

lemma flat_wf_json: "flat d \<Longrightarrow> distinct (map fst d) \<Longrightarrow> wf_json (PDict d)"
proof -
  have "is_scalar v \<Longrightarrow> wf_json v" for v by (cases v) simp_all
  then show "flat d \<Longrightarrow> distinct (map fst d) \<Longrightarrow> wf_json (PDict d)"
    by (auto simp: flat_def list_all_iff)
qed

lemma entries_wf_json:
  "list_all (\<lambda>kv. entry_ok (snd kv)) d \<Longrightarrow> distinct (map fst d) \<Longrightarrow> wf_json (PDict d)"
  by (auto simp: list_all_iff entry_ok_def)

lemma written_report_iff:
  "written_report h fs = Some report \<longleftrightarrow>
     (\<exists>cpu mem fsi. get_cpu_info h = Inr cpu \<and> get_memory_info h = Inr mem \<and>
        get_filesystem_info h = Inr fsi \<and> dump_fault h = None \<and>
        report = all_info h cpu mem fsi (fst (get_io_performance h fs)))"
  by (auto simp: written_report_def main_def split: sum.splits prod.splits option.splits)

lemma main_completes_iff:
  "fst (main h fs) = None \<longleftrightarrow>
     (\<exists>cpu mem fsi. get_cpu_info h = Inr cpu \<and> get_memory_info h = Inr mem \<and>
        get_filesystem_info h = Inr fsi \<and> dump_fault h = None)"
  by (auto simp: main_def split: sum.splits prod.splits option.splits)

lemma main_output:
  "fst (main h fs) = None \<Longrightarrow>
     \<exists>report. written_report h fs = Some report \<and>
       snd (main h fs) (resolve h (output_file h)) = Some (Json (PDict report))"
  by (auto simp: written_report_def main_def split: sum.splits prod.splits option.splits)

lemma all_info_wf:
  assumes "get_cpu_info h = Inr cpu" "get_memory_info h = Inr mem" "get_filesystem_info h = Inr fsi"
  shows "wf_json (PDict (all_info h cpu mem fsi (fst (get_io_performance h fs))))"
proof -
  have "wf_json (PDict cpu)"
    using get_cpu_info_flat [OF assms(1)] by (simp only: flat_wf_json)
  moreover have "wf_json (PDict mem)"
    using get_memory_info_flat [OF assms(2)] by (simp only: flat_wf_json)
  moreover have "wf_json (PDict fsi)"
    using get_filesystem_info_entries [OF assms(3)] by (simp only: entries_wf_json)
  moreover have "wf_json (PDict (fst (get_io_performance h fs)))"
    using get_io_performance_flat [of h fs] by (simp only: flat_wf_json)
  ultimately show ?thesis
    by (simp add: all_info_def)
qed

section \<open>Which sources a field needs\<close>











lemma written_report_eq:
  "get_cpu_info h = Inr cpu \<Longrightarrow> get_memory_info h = Inr mem \<Longrightarrow>
   get_filesystem_info h = Inr fsi \<Longrightarrow> dump_fault h = None \<Longrightarrow>
     written_report h fs = Some (all_info h cpu mem fsi (fst (get_io_performance h fs)))"
  by (simp add: written_report_iff)

lemma all_info_sections:
  "map_of (all_info h cpu mem fsi io) ''cpu'' = Some (PDict cpu) \<and>
   map_of (all_info h cpu mem fsi io) ''memory'' = Some (PDict mem) \<and>
   map_of (all_info h cpu mem fsi io) ''filesystem'' = Some (PDict fsi) \<and>
   map_of (all_info h cpu mem fsi io) ''io_performance'' = Some (PDict io) \<and>
   keys (all_info h cpu mem fsi io) =
     {''timestamp'', ''platform'', ''cpu'', ''memory'', ''filesystem'', ''io_performance''}"
  by (simp add: all_info_def keys_Cons keys_Nil)

section \<open>The probes on the example hosts\<close>

lemmas host_defs = linux_host_def locked_down_host_def windows_host_def darwin_host_def
  odd_sysctl_host_def short_meminfo_host_def intel_mac_host_def disk_full_host_def read_error_host_def
  linux_shell_def darwin_shell_def squote_def

lemmas string_defs = strip_def is_space_def split_on_def split_ws_def index_def
  startswith_def py_int_def parse_digits_def is_digit_def digits_val_def digit_val_def

lemma get_cpu_info_linux_host:
  "get_cpu_info linux_host =
     Inr [(''processor'', PStr ''Unknown''), (''architecture'', PStr ''x86_64''),
          (''python_cpu_count'', PInt 8), (''model'', PStr ''Xeon E5'')]"
  by (simp add: get_cpu_info_def base_cpu_info_def host_defs string_defs)

lemma get_memory_info_linux_host:
  "get_memory_info linux_host = Inr [(''total_gb'', PFloat 16)]"
  by (simp add: get_memory_info_def run_command_eq host_defs string_defs py_round_def
        round_half_even_def)

lemma get_filesystem_info_linux_host:
  "get_filesystem_info linux_host =
     Inr [(''current_dir'', PDict [(''path'', PStr ''/work''), (''type'', PStr ''ext4 (likely SSD/HDD)'')]),
          (''home'', PDict [(''path'', PStr ''/home/ada''), (''type'', PStr ''NFS (Network)'')]),
          (''tmp'', PDict [(''path'', PStr ''/tmp''), (''type'', PStr ''ramfs'')])]"
  by (simp add: get_filesystem_info_def fs_entry_def linux_fs_type_def fs_map_def run_command_eq
        disk_usage_unchanged host_defs string_defs)

lemma get_cpu_info_locked_down_host:
  "get_cpu_info locked_down_host =
     Inr [(''processor'', PStr ''Unknown''), (''architecture'', PStr ''x86_64''),
          (''python_cpu_count'', PInt 8)]"
  by (simp add: get_cpu_info_def base_cpu_info_def host_defs)

lemma get_memory_info_locked_down_host: "get_memory_info locked_down_host = Inr []"
  by (simp add: get_memory_info_def run_command_eq host_defs)

lemma get_filesystem_info_locked_down_host:
  "get_filesystem_info locked_down_host =
     Inr [(''current_dir'', PDict [(''path'', PStr ''/work'')]),
          (''home'', PDict [(''path'', PStr ''/home/ada'')]),
          (''tmp'', PDict [(''path'', PStr ''/tmp'')])]"
  by (simp add: get_filesystem_info_def fs_entry_def linux_fs_type_def run_command_eq
        disk_usage_unchanged host_defs)



lemma get_cpu_info_odd_sysctl_host:
  "get_cpu_info odd_sysctl_host = Inl (invalid_literal ''unknown'')"
  by (simp add: get_cpu_info_def base_cpu_info_def run_command_eq host_defs string_defs)

lemma get_cpu_info_short_meminfo_host:
  "get_cpu_info short_meminfo_host =
     Inr [(''processor'', PStr ''Unknown''), (''architecture'', PStr ''x86_64''),
          (''python_cpu_count'', PInt 8), (''model'', PStr ''Xeon E5'')]"
  by (simp add: get_cpu_info_def base_cpu_info_def host_defs string_defs)

lemma get_memory_info_short_meminfo_host:
  "get_memory_info short_meminfo_host = Inl (Exc IndexError ''list index out of range'')"
  by (simp add: get_memory_info_def run_command_eq host_defs string_defs)

lemma get_io_performance_linux_host:
  "fst (get_io_performance linux_host Map.empty) =
     [(''write_speed_mb_s'', PFloat 50), (''read_speed_mb_s'', PFloat 200)]"
  by (simp add: get_io_performance_def io_try_linux_host)

lemma written_report_linux_host:
  "written_report linux_host Map.empty =
     Some (all_info linux_host
       [(''processor'', PStr ''Unknown''), (''architecture'', PStr ''x86_64''),
        (''python_cpu_count'', PInt 8), (''model'', PStr ''Xeon E5'')]
       [(''total_gb'', PFloat 16)]
       [(''current_dir'', PDict [(''path'', PStr ''/work''), (''type'', PStr ''ext4 (likely SSD/HDD)'')]),
        (''home'', PDict [(''path'', PStr ''/home/ada''), (''type'', PStr ''NFS (Network)'')]),
        (''tmp'', PDict [(''path'', PStr ''/tmp''), (''type'', PStr ''ramfs'')])]
       [(''write_speed_mb_s'', PFloat 50), (''read_speed_mb_s'', PFloat 200)])"
proof -
  have "dump_fault linux_host = None"
    by (simp add: linux_host_def)
  from written_report_eq [OF get_cpu_info_linux_host get_memory_info_linux_host
      get_filesystem_info_linux_host this, of Map.empty]
  show ?thesis by (simp only: get_io_performance_linux_host)
qed







section \<open>Errors that leave main\<close>

text \<open>
  Claim C3 says that no error raised during a probe is fatal: \<^verbatim>\<open>main\<close> would only
  terminate with an uncaught exception when the final JSON file cannot be written, and
  in particular non-numeric output of \<^verbatim>\<open>sysctl\<close> or malformed
  \<^verbatim>\<open>/proc/meminfo\<close> content would never raise. In the code
  \<^verbatim>\<open>int(perf_cores)\<close> (line 44) and \<^verbatim>\<open>int(mem_info.split()[1])\<close> (line 83)
  stand outside every \<^verbatim>\<open>try\<close>: on the Mac whose \<^verbatim>\<open>sysctl\<close> prints a word
  \<^verbatim>\<open>get_cpu_info\<close> raises ValueError, on the Linux host whose \<^verbatim>\<open>grep\<close> prints
  one word \<^verbatim>\<open>get_memory_info\<close> raises IndexError, and both leave \<^verbatim>\<open>main\<close>
  before any report is written, although writing the file would have worked.
\<close>

theorem probe_errors_are_fatal:
  "dump_fault odd_sysctl_host = None \<and>
   shell odd_sysctl_host ''sysctl -n hw.perflevel0.physicalcpu''
     = Completed 0 (''unknown'' @ [CHR 0x0A]) \<and>
   get_cpu_info odd_sysctl_host = Inl (invalid_literal ''unknown'') \<and>
   main odd_sysctl_host Map.empty = (Some (invalid_literal ''unknown''), Map.empty) \<and>
   written_report odd_sysctl_host Map.empty = None \<and>
   dump_fault short_meminfo_host = None \<and>
   shell short_meminfo_host ''grep MemTotal /proc/meminfo'' = Completed 0 (''MemTotal:'' @ [CHR 0x0A]) \<and>
   get_memory_info short_meminfo_host = Inl (Exc IndexError ''list index out of range'') \<and>
   main short_meminfo_host Map.empty = (Some (Exc IndexError ''list index out of range''), Map.empty) \<and>
   written_report short_meminfo_host Map.empty = None"
  by (simp add: written_report_def main_def get_cpu_info_odd_sysctl_host
        get_cpu_info_short_meminfo_host get_memory_info_short_meminfo_host)
     (simp add: host_defs)

section \<open>The written report\<close>

text \<open>
  Claim C4. The JSON object written by \<^verbatim>\<open>main\<close> is valid JSON and contains a
  top-level \<^verbatim>\<open>timestamp\<close> key and a top-level \<^verbatim>\<open>platform\<close> object with the keys
  \<^verbatim>\<open>system\<close>, \<^verbatim>\<open>release\<close> and \<^verbatim>\<open>python\<close>, whichever probes succeeded.
  Whenever \<^verbatim>\<open>main\<close> completes, the output file holds a dictionary that
  \<^verbatim>\<open>json.dump\<close> serialises (\<open>wf_json\<close>) with these entries.
\<close>

theorem main_writes_valid_report:
  "fst (main h fs) = None \<Longrightarrow>
     \<exists>report platform.
       snd (main h fs) (resolve h (output_file h)) = Some (Json (PDict report)) \<and>
       wf_json (PDict report) \<and>
       map_of report ''timestamp'' = Some (PStr (now_iso h)) \<and>
       map_of report ''platform'' = Some (PDict platform) \<and>
       map_of platform ''system'' = Some (PStr (sys_name h)) \<and>
       map_of platform ''release'' = Some (PStr (release h)) \<and>
       map_of platform ''python'' = Some (PStr (python_version h))"
proof -
  assume a: "fst (main h fs) = None"
  from main_output [OF a] obtain report where
    r: "written_report h fs = Some report"
    and out: "snd (main h fs) (resolve h (output_file h)) = Some (Json (PDict report))"
    by blast
  from r obtain cpu mem fsi where
    p: "get_cpu_info h = Inr cpu" "get_memory_info h = Inr mem" "get_filesystem_info h = Inr fsi"
    and eq: "report = all_info h cpu mem fsi (fst (get_io_performance h fs))"
    by (auto simp: written_report_iff)
  have wf: "wf_json (PDict report)"
    unfolding eq by (rule all_info_wf [OF p])
  have ts: "map_of report ''timestamp'' = Some (PStr (now_iso h))"
    by (simp add: eq all_info_def)
  have pl: "map_of report ''platform'' =
      Some (PDict [(''system'', PStr (sys_name h)), (''release'', PStr (release h)),
                   (''python'', PStr (python_version h))])"
    by (simp add: eq all_info_def)
  show ?thesis
    apply (rule exI [of _ report])
    apply (rule exI [of _ "[(''system'', PStr (sys_name h)), (''release'', PStr (release h)),
                   (''python'', PStr (python_version h))]"])
    using out wf ts pl by simp
qed

theorem main_writes_valid_report_witness:
  "fst (main locked_down_host Map.empty) = None \<and>
   (\<exists>report platform.
       snd (main locked_down_host Map.empty) (resolve locked_down_host (output_file locked_down_host))
         = Some (Json (PDict report)) \<and>
       wf_json (PDict report) \<and>
       map_of report ''timestamp'' = Some (PStr (now_iso locked_down_host)) \<and>
       map_of report ''platform'' = Some (PDict platform) \<and>
       map_of platform ''system'' = Some (PStr (sys_name locked_down_host)) \<and>
       map_of platform ''release'' = Some (PStr (release locked_down_host)) \<and>
       map_of platform ''python'' = Some (PStr (python_version locked_down_host)))"
proof -
  have "dump_fault locked_down_host = None"
    by (simp add: host_defs)
  then have fin: "fst (main locked_down_host Map.empty) = None"
    by (simp add: main_completes_iff get_cpu_info_locked_down_host
          get_memory_info_locked_down_host get_filesystem_info_locked_down_host)
  from fin main_writes_valid_report [OF fin] show ?thesis by (rule conjI)
qed

section \<open>The sections of the report\<close>

text \<open>
  Claim C5 says that the report has four optional sections (cpu, memory, filesystem,
  io_performance), each a mapping from string keys to scalar values only, with no nested
  mappings as values. The filesystem section is nested: on the Linux host each of its
  values is the dictionary of one path.
\<close>

theorem filesystem_section_is_nested:
  "report_section linux_host Map.empty ''filesystem'' =
     Some (PDict
       [(''current_dir'', PDict [(''path'', PStr ''/work''), (''type'', PStr ''ext4 (likely SSD/HDD)'')]),
        (''home'', PDict [(''path'', PStr ''/home/ada''), (''type'', PStr ''NFS (Network)'')]),
        (''tmp'', PDict [(''path'', PStr ''/tmp''), (''type'', PStr ''ramfs'')])]) \<and>
   \<not> flat
       [(''current_dir'', PDict [(''path'', PStr ''/work''), (''type'', PStr ''ext4 (likely SSD/HDD)'')]),
        (''home'', PDict [(''path'', PStr ''/home/ada''), (''type'', PStr ''NFS (Network)'')]),
        (''tmp'', PDict [(''path'', PStr ''/tmp''), (''type'', PStr ''ramfs'')])] \<and>
   \<not> is_scalar (PDict [(''path'', PStr ''/work''), (''type'', PStr ''ext4 (likely SSD/HDD)'')])"
  by (simp add: report_section_def written_report_linux_host all_info_def flat_def)

text \<open>
  Claim C5 as amended. A written report has the keys \<^verbatim>\<open>timestamp\<close>,
  \<^verbatim>\<open>platform\<close> and the four sections. The sections \<^verbatim>\<open>cpu\<close>, \<^verbatim>\<open>memory\<close>
  and \<^verbatim>\<open>io_performance\<close> are mappings from string keys to scalars (numbers,
  strings or None); the section \<^verbatim>\<open>filesystem\<close> maps each of its keys to such a
  mapping.
\<close>

theorem report_sections_shape:
  "written_report h fs = Some report \<Longrightarrow>
     keys report =
       {''timestamp'', ''platform'', ''cpu'', ''memory'', ''filesystem'', ''io_performance''} \<and>
     (\<exists>cpu mem fsi io.
        map_of report ''cpu'' = Some (PDict cpu) \<and> flat cpu \<and>
        map_of report ''memory'' = Some (PDict mem) \<and> flat mem \<and>
        map_of report ''io_performance'' = Some (PDict io) \<and> flat io \<and>
        map_of report ''filesystem'' = Some (PDict fsi) \<and>
        list_all (\<lambda>kv. is_flat_dict (snd kv)) fsi)"
proof -
  assume "written_report h fs = Some report"
  then obtain cpu mem fsi where
    p: "get_cpu_info h = Inr cpu" "get_memory_info h = Inr mem" "get_filesystem_info h = Inr fsi"
    and eq: "report = all_info h cpu mem fsi (fst (get_io_performance h fs))"
    by (auto simp: written_report_iff)
  have "list_all (\<lambda>kv. entry_ok (snd kv)) fsi"
    using get_filesystem_info_entries [OF p(3)] by simp
  then have f: "list_all (\<lambda>kv. is_flat_dict (snd kv)) fsi"
    by (simp add: list_all_iff entry_ok_def)
  note s = all_info_sections [of h cpu mem fsi "fst (get_io_performance h fs)"]
  have k: "keys report =
       {''timestamp'', ''platform'', ''cpu'', ''memory'', ''filesystem'', ''io_performance''}"
    unfolding eq using s by (elim conjE)
  have "map_of report ''cpu'' = Some (PDict cpu) \<and> flat cpu \<and>
        map_of report ''memory'' = Some (PDict mem) \<and> flat mem \<and>
        map_of report ''io_performance'' = Some (PDict (fst (get_io_performance h fs))) \<and>
        flat (fst (get_io_performance h fs)) \<and>
        map_of report ''filesystem'' = Some (PDict fsi) \<and>
        list_all (\<lambda>kv. is_flat_dict (snd kv)) fsi"
    unfolding eq
    using get_cpu_info_flat [OF p(1)] get_memory_info_flat [OF p(2)]
      get_io_performance_flat [of h fs] f s
    by (elim conjE) (intro conjI; assumption)
  then have "\<exists>cpu mem fsi io.
        map_of report ''cpu'' = Some (PDict cpu) \<and> flat cpu \<and>
        map_of report ''memory'' = Some (PDict mem) \<and> flat mem \<and>
        map_of report ''io_performance'' = Some (PDict io) \<and> flat io \<and>
        map_of report ''filesystem'' = Some (PDict fsi) \<and>
        list_all (\<lambda>kv. is_flat_dict (snd kv)) fsi"
    by (intro exI)
  with k show ?thesis by (rule conjI)
qed

theorem report_sections_shape_witness:
  "written_report linux_host Map.empty =
     Some (all_info linux_host
       [(''processor'', PStr ''Unknown''), (''architecture'', PStr ''x86_64''),
        (''python_cpu_count'', PInt 8), (''model'', PStr ''Xeon E5'')]
       [(''total_gb'', PFloat 16)]
       [(''current_dir'', PDict [(''path'', PStr ''/work''), (''type'', PStr ''ext4 (likely SSD/HDD)'')]),
        (''home'', PDict [(''path'', PStr ''/home/ada''), (''type'', PStr ''NFS (Network)'')]),
        (''tmp'', PDict [(''path'', PStr ''/tmp''), (''type'', PStr ''ramfs'')])]
       [(''write_speed_mb_s'', PFloat 50), (''read_speed_mb_s'', PFloat 200)]) \<and>
   (\<exists>cpu mem fsi io.
        report_section linux_host Map.empty ''cpu'' = Some (PDict cpu) \<and> flat cpu \<and>
        report_section linux_host Map.empty ''memory'' = Some (PDict mem) \<and> flat mem \<and>
        report_section linux_host Map.empty ''io_performance'' = Some (PDict io) \<and> flat io \<and>
        report_section linux_host Map.empty ''filesystem'' = Some (PDict fsi) \<and>
        list_all (\<lambda>kv. is_flat_dict (snd kv)) fsi)"
proof -
  from report_sections_shape [OF written_report_linux_host]
  have "\<exists>cpu mem fsi io.
        report_section linux_host Map.empty ''cpu'' = Some (PDict cpu) \<and> flat cpu \<and>
        report_section linux_host Map.empty ''memory'' = Some (PDict mem) \<and> flat mem \<and>
        report_section linux_host Map.empty ''io_performance'' = Some (PDict io) \<and> flat io \<and>
        report_section linux_host Map.empty ''filesystem'' = Some (PDict fsi) \<and>
        list_all (\<lambda>kv. is_flat_dict (snd kv)) fsi"
    unfolding report_section_def written_report_linux_host option.case
    by (elim conjE)
  with written_report_linux_host show ?thesis by (rule conjI)
qed




section \<open>Failures of the probes\<close>




end
